theory Spec2Isabelle
  imports Complex_Main
begin

section \<open>The GraphQL gateway of \<^verbatim>\<open>extension/src/graphql.ts\<close>\<close>

text \<open>
  The module has one low-level executor, \<^verbatim>\<open>requestGraphQL\<close>, and four operations built
  on it: \<^verbatim>\<open>search\<close>, \<^verbatim>\<open>resolveRev\<close>, \<^verbatim>\<open>resolveRepository\<close> and \<^verbatim>\<open>queryExtensions\<close>.
  Every function is \<^verbatim>\<open>async\<close>; a promise is modelled by the value it settles with:
  \<open>Inr v\<close> when it resolves with \<open>v\<close>, \<open>Inl e\<close> when it rejects with \<open>e\<close>. The
  transport \<^verbatim>\<open>tracedFetch\<close> is imported from \<^verbatim>\<open>./tracing\<close> and is a parameter of the
  model: a function from the request to what the promise of the transport settles with.
\<close>

subsection \<open>Values\<close>

text \<open>
  A decoded JSON document. An object is the association list of its own properties, in
  the order of the document; \<open>map_of\<close> reads a property. Of a number the module only ever
  observes whether it is zero.
\<close>

datatype json =
    JNull
  | JBool bool
  | JNum real
  | JStr string
  | JArr "json list"
  | JObj "(string \<times> json) list"

text \<open>
  What an expression of type \<^verbatim>\<open>any\<close> can evaluate to in this module: \<^verbatim>\<open>undefined\<close>, a
  JSON value, or a built-in method found on a prototype (reading \<^verbatim>\<open>search\<close> of a string
  yields \<^verbatim>\<open>String.prototype.search\<close>).
\<close>

datatype js_value =
    Undefined
  | Json json
  | NativeFunction string

text \<open>
  The exceptions: \<open>Error m\<close> is \<^verbatim>\<open>new Error(m)\<close>, the only kind this module throws itself;
  \<open>TypeError_read p\<close> is the \<^verbatim>\<open>TypeError\<close> of reading property \<open>p\<close> of \<^verbatim>\<open>null\<close> or
  \<^verbatim>\<open>undefined\<close>; \<open>TransportFailure m\<close> is whatever else the transport rejects with (a
  network failure, a body that is not JSON).
\<close>

datatype js_error =
    Error string
  | TypeError_read string
  | TransportFailure string

text \<open>Sequencing: a rejection or an exception of the first step ends the function.\<close>

definition andThen :: "'e + 'a \<Rightarrow> ('a \<Rightarrow> 'e + 'b) \<Rightarrow> 'e + 'b" where
  "andThen r k = (case r of Inl e \<Rightarrow> Inl e | Inr v \<Rightarrow> k v)"

text \<open>
  The property read \<^verbatim>\<open>v.p\<close>, for the property names this module reads
  (\<^verbatim>\<open>search\<close>, \<^verbatim>\<open>results\<close>, \<^verbatim>\<open>repository\<close>, \<^verbatim>\<open>commit\<close>, \<^verbatim>\<open>oid\<close>, \<^verbatim>\<open>name\<close>,
  \<^verbatim>\<open>extensionRegistry\<close>, \<^verbatim>\<open>extensions\<close>, \<^verbatim>\<open>nodes\<close>). Reading from \<^verbatim>\<open>null\<close> or
  \<^verbatim>\<open>undefined\<close> throws; an object yields its own property or \<^verbatim>\<open>undefined\<close>; of these
  names the prototypes of booleans, numbers and arrays have none, the prototype of
  strings has \<^verbatim>\<open>search\<close>, and a function has its \<^verbatim>\<open>name\<close>.
\<close>

fun get :: "js_value \<Rightarrow> string \<Rightarrow> js_error + js_value" where
  "get Undefined p = Inl (TypeError_read p)"
| "get (Json JNull) p = Inl (TypeError_read p)"
| "get (Json (JObj fs)) p = Inr (case map_of fs p of None \<Rightarrow> Undefined | Some v \<Rightarrow> Json v)"
| "get (Json (JStr s)) p = Inr (if p = ''search'' then NativeFunction ''search'' else Undefined)"
| "get (Json (JBool b)) p = Inr Undefined"
| "get (Json (JNum n)) p = Inr Undefined"
| "get (Json (JArr xs)) p = Inr Undefined"
| "get (NativeFunction f) p = Inr (if p = ''name'' then Json (JStr f) else Undefined)"

text \<open>The truth value of \<^verbatim>\<open>!v\<close> negated: what \<^verbatim>\<open>if (v)\<close> tests.\<close>

fun truthy :: "js_value \<Rightarrow> bool" where
  "truthy Undefined = False"
| "truthy (Json JNull) = False"
| "truthy (Json (JBool b)) = b"
| "truthy (Json (JNum n)) = (n \<noteq> 0)"
| "truthy (Json (JStr s)) = (s \<noteq> [])"
| "truthy (Json (JArr xs)) = True"
| "truthy (Json (JObj fs)) = True"
| "truthy (NativeFunction f) = True"

text \<open>\<^verbatim>\<open>Array.prototype.join\<close> on an array of strings.\<close>

fun join :: "string \<Rightarrow> string list \<Rightarrow> string" where
  "join sep [] = []"
| "join sep [x] = x"
| "join sep (x # y # ys) = x @ sep @ join sep (y # ys)"

definition LF :: string where
  "LF = [CHR 0x0A]"

text \<open>The decimal numeral of a number, as a template literal prints an integer.\<close>

fun string_of_nat :: "nat \<Rightarrow> string" where
  "string_of_nat n =
     (if n < 10 then [''0123456789'' ! n]
      else string_of_nat (n div 10) @ [''0123456789'' ! (n mod 10)])"

subsection \<open>URLs\<close>

text \<open>
  \<^verbatim>\<open>instanceUrl\<close> is a \<^verbatim>\<open>URL\<close> object. The instance is reached with \<^verbatim>\<open>fetch\<close>, so the model
  holds the components of an \<^verbatim>\<open>http\<close> or \<^verbatim>\<open>https\<close> URL: \<open>host\<close> is the host with its
  port, as the \<^verbatim>\<open>host\<close> getter prints it, \<open>pathname\<close> starts with a slash, \<open>query\<close> and
  \<open>fragment\<close> are \<open>None\<close> when the URL has none.
\<close>

datatype scheme = Http | Https

record URL =
  scheme :: scheme
  username :: string
  password :: string
  host :: string
  pathname :: string
  query :: "string option"
  fragment :: "string option"

text \<open>The serialisation of a URL: \<^verbatim>\<open>url.href\<close>, which is also \<^verbatim>\<open>url.toString()\<close>.\<close>

definition href :: "URL \<Rightarrow> string" where
  "href u =
     (case scheme u of Http \<Rightarrow> ''http'' | Https \<Rightarrow> ''https'') @ ''://'' @
     (if username u \<noteq> [] \<or> password u \<noteq> []
      then username u @ (if password u \<noteq> [] then '':'' @ password u else []) @ ''@''
      else []) @
     host u @ pathname u @
     (case query u of None \<Rightarrow> [] | Some q \<Rightarrow> ''?'' @ q) @
     (case fragment u of None \<Rightarrow> [] | Some f \<Rightarrow> ''#'' @ f)"

text \<open>
  \<^verbatim>\<open>new URL('/.api/graphql', base)\<close>: a reference that starts with one slash keeps the
  scheme, the credentials, the host and the port of the base and replaces its path; the
  query and the fragment of the base are dropped.
\<close>

definition new_URL_api_graphql :: "URL \<Rightarrow> URL" where
  "new_URL_api_graphql base = base\<lparr>pathname := ''/.api/graphql'', query := None, fragment := None\<rparr>"

subsection \<open>Tracing\<close>

text \<open>
  A span is either one handed in by the caller or a child started under an operation
  name. The tracer is an object that is only passed along.
\<close>

datatype span = Span nat | ChildSpan string span

datatype tracer = Tracer nat

text \<open>
  Modelled from the spec: \<^verbatim>\<open>tracePromise\<close> of \<^verbatim>\<open>./tracing\<close> is not part of this file. It
  starts a child span for the named operation, runs the asynchronous work within it and
  settles as the work settles; the span is closed in either case.
\<close>

definition tracePromise :: "string \<Rightarrow> tracer \<Rightarrow> span \<Rightarrow> (span \<Rightarrow> js_error + 'a) \<Rightarrow> js_error + 'a" where
  "tracePromise operationName tr sp f = f (ChildSpan operationName sp)"

subsection \<open>The instance, the request, the response\<close>

record SourcegraphInstance =
  instanceUrl :: URL
  accessToken :: "string option"

text \<open>The shape that the return type of \<^verbatim>\<open>requestGraphQL\<close> declares.\<close>

record gql_error =
  message :: string
  path :: string

record envelope =
  data :: js_value
  errors :: "gql_error list option"

text \<open>
  The two arguments of \<^verbatim>\<open>tracedFetch\<close>; \<open>http_method\<close> is the property \<^verbatim>\<open>method\<close>. The
  body is the text that \<^verbatim>\<open>JSON.stringify\<close> returns, held as the JSON document that the
  text denotes.
\<close>

record request =
  url :: URL
  http_method :: string
  headers :: "(string \<times> string) list"
  body :: json
  span :: span
  tracer :: tracer

text \<open>
  What the module reads of a response: \<^verbatim>\<open>ok\<close>, \<^verbatim>\<open>status\<close>, \<^verbatim>\<open>statusText\<close>, and the
  promise that \<^verbatim>\<open>response.json()\<close> returns.
\<close>

record response =
  ok :: bool
  status :: nat
  statusText :: string
  json :: "js_error + envelope"

type_synonym transport = "request \<Rightarrow> js_error + response"

subsection \<open>\<^verbatim>\<open>requestGraphQL\<close>\<close>

text \<open>
  Lines 22 to 28: the header object, its properties in the order they are set. The
  \<^verbatim>\<open>Authorization\<close> property is set when \<^verbatim>\<open>accessToken\<close> is truthy: defined and not the
  empty string.
\<close>

definition requestGraphQL_headers :: "string option \<Rightarrow> (string \<times> string) list" where
  "requestGraphQL_headers tok =
     [(''Accept'', ''application/json''), (''Content-Type'', ''application/json'')] @
     (case tok of
        None \<Rightarrow> []
      | Some t \<Rightarrow> if t \<noteq> [] then [(''Authorization'', ''token '' @ t)] else [])"

text \<open>
  Line 32: \<^verbatim>\<open>JSON.stringify({ query, variables })\<close>, where \<^verbatim>\<open>variables\<close> is \<^verbatim>\<open>{}\<close> by
  default, that is when the argument is \<^verbatim>\<open>undefined\<close>. A property whose value is a
  function is left out of the text.
\<close>

definition requestGraphQL_body :: "string \<Rightarrow> js_value \<Rightarrow> json" where
  "requestGraphQL_body q variables =
     (case (case variables of Undefined \<Rightarrow> Json (JObj []) | v \<Rightarrow> v) of
        Json v \<Rightarrow> JObj [(''query'', JStr q), (''variables'', v)]
      | _ \<Rightarrow> JObj [(''query'', JStr q)])"

text \<open>Lines 29 to 35: the request handed to \<^verbatim>\<open>tracedFetch\<close>.\<close>

definition requestGraphQL_request ::
    "string \<Rightarrow> js_value \<Rightarrow> SourcegraphInstance \<Rightarrow> span \<Rightarrow> tracer \<Rightarrow> request" where
  "requestGraphQL_request q variables inst sp tr =
     \<lparr>url = new_URL_api_graphql (instanceUrl inst),
      http_method = ''POST'',
      headers = requestGraphQL_headers (accessToken inst),
      body = requestGraphQL_body q variables,
      span = sp,
      tracer = tr\<rparr>"

definition requestGraphQL ::
    "transport \<Rightarrow> string \<Rightarrow> js_value \<Rightarrow> SourcegraphInstance \<Rightarrow> span \<Rightarrow> tracer \<Rightarrow> js_error + envelope" where
  "requestGraphQL tracedFetch q variables inst sp tr =
     andThen (tracedFetch (requestGraphQL_request q variables inst sp tr)) (\<lambda>response.
       if \<not> ok response
       then Inl (Error (string_of_nat (status response) @ '' '' @ statusText response))
       else json response)"

subsection \<open>The four operations\<close>

text \<open>The query texts; \<^verbatim>\<open>gql\<close> is the tag that returns its template unchanged.\<close>

definition search_query :: string where
  "search_query = join LF
    ['''',
     ''                query Search($query: String!) {'',
     ''                    search(query: $query) {'',
     ''                        results {'',
     ''                            results {'',
     ''                                ... on FileMatch {'',
     ''                                    repository {'',
     ''                                        name'',
     ''                                    }'',
     ''                                }'',
     ''                            }'',
     ''                        }'',
     ''                    }'',
     ''                }'',
     ''            '']"

definition resolveRev_query :: string where
  "resolveRev_query = join LF
    ['''',
     ''                query ResolveRev($repoName: String!, $rev: String!) {'',
     ''                    repository(name: $repoName) {'',
     ''                        commit(rev: $rev) {'',
     ''                            oid'',
     ''                        }'',
     ''                    }'',
     ''                }'',
     ''            '']"

definition resolveRepository_query :: string where
  "resolveRepository_query = join LF
    ['''',
     ''                query($cloneUrl: String!) {'',
     ''                    repository(cloneURL: $cloneUrl) {'',
     ''                        name'',
     ''                    }'',
     ''                }'',
     ''            '']"

definition queryExtensions_query :: string where
  "queryExtensions_query = join LF
    ['''',
     ''                query ExtensionManifests {'',
     ''                    extensionRegistry {'',
     ''                        extensions {'',
     ''                            nodes {'',
     ''                                extensionID'',
     ''                                manifest {'',
     ''                                    raw'',
     ''                                }'',
     ''                            }'',
     ''                        }'',
     ''                    }'',
     ''                }'',
     ''            '']"

text \<open>
  The check that each operation makes on the envelope before it reads \<^verbatim>\<open>data\<close> (lines
  68 to 70, 100 to 102, 131 to 133 and 168 to 170 are the same three lines).
\<close>

definition throw_graphql_errors :: "gql_error list option \<Rightarrow> js_error + unit" where
  "throw_graphql_errors errs =
     (case errs of
        None \<Rightarrow> Inr ()
      | Some es \<Rightarrow>
          if length es > 0 then Inl (Error (''GraphQL Error:'' @ join LF (map message es)))
          else Inr ())"

definition search ::
    "transport \<Rightarrow> string \<Rightarrow> SourcegraphInstance \<Rightarrow> span \<Rightarrow> tracer \<Rightarrow> js_error + js_value" where
  "search tracedFetch q sgInstance sp tr =
     tracePromise ''Sourcegraph search'' tr sp (\<lambda>sp'.
       andThen (requestGraphQL tracedFetch search_query
                  (Json (JObj [(''query'', JStr q)])) sgInstance sp' tr) (\<lambda>env.
       andThen (throw_graphql_errors (errors env)) (\<lambda>_.
       andThen (get (data env) ''search'') (\<lambda>a.
       andThen (get a ''results'') (\<lambda>b.
       get b ''results'')))))"

definition resolveRev ::
    "transport \<Rightarrow> string \<Rightarrow> string \<Rightarrow> SourcegraphInstance \<Rightarrow> span \<Rightarrow> tracer \<Rightarrow> js_error + js_value" where
  "resolveRev tracedFetch repoName rev' sgInstance sp tr =
     tracePromise ''Resolve rev'' tr sp (\<lambda>sp'.
       andThen (requestGraphQL tracedFetch resolveRev_query
                  (Json (JObj [(''repoName'', JStr repoName), (''rev'', JStr rev')]))
                  sgInstance sp' tr) (\<lambda>env.
       andThen (throw_graphql_errors (errors env)) (\<lambda>_.
       andThen (get (data env) ''repository'') (\<lambda>a.
       andThen (get a ''commit'') (\<lambda>b.
       get b ''oid'')))))"

definition resolveRepository ::
    "transport \<Rightarrow> string \<Rightarrow> SourcegraphInstance \<Rightarrow> span \<Rightarrow> tracer \<Rightarrow> js_error + js_value" where
  "resolveRepository tracedFetch cloneUrl sgInstance sp tr =
     tracePromise ''Resolve clone URL'' tr sp (\<lambda>sp'.
       andThen (requestGraphQL tracedFetch resolveRepository_query
                  (Json (JObj [(''cloneUrl'', JStr cloneUrl)])) sgInstance sp' tr) (\<lambda>env.
       andThen (throw_graphql_errors (errors env)) (\<lambda>_.
       andThen (get (data env) ''repository'') (\<lambda>a.
       if \<not> truthy a
       then Inl (Error (''No repository found for clone URL '' @ cloneUrl @
                        '' on instance '' @ href (instanceUrl sgInstance)))
       else andThen (get (data env) ''repository'') (\<lambda>b.
            get b ''name'')))))"

definition queryExtensions ::
    "transport \<Rightarrow> SourcegraphInstance \<Rightarrow> span \<Rightarrow> tracer \<Rightarrow> js_error + js_value" where
  "queryExtensions tracedFetch sgInstance sp tr =
     tracePromise ''Query extensions'' tr sp (\<lambda>sp'.
       andThen (requestGraphQL tracedFetch queryExtensions_query
                  (Json (JObj [])) sgInstance sp' tr) (\<lambda>env.
       andThen (throw_graphql_errors (errors env)) (\<lambda>_.
       andThen (get (data env) ''extensionRegistry'') (\<lambda>a.
       andThen (get a ''extensions'') (\<lambda>b.
       get b ''nodes'')))))"

subsection \<open>The request that each operation sends\<close>

text \<open>
  Each operation calls \<^verbatim>\<open>requestGraphQL\<close> once, with its own query text and variables,
  under the child span that \<^verbatim>\<open>tracePromise\<close> started.
\<close>

definition search_request :: "string \<Rightarrow> SourcegraphInstance \<Rightarrow> span \<Rightarrow> tracer \<Rightarrow> request" where
  "search_request q inst sp tr =
     requestGraphQL_request search_query (Json (JObj [(''query'', JStr q)])) inst
       (ChildSpan ''Sourcegraph search'' sp) tr"

definition resolveRev_request ::
    "string \<Rightarrow> string \<Rightarrow> SourcegraphInstance \<Rightarrow> span \<Rightarrow> tracer \<Rightarrow> request" where
  "resolveRev_request repoName rev' inst sp tr =
     requestGraphQL_request resolveRev_query
       (Json (JObj [(''repoName'', JStr repoName), (''rev'', JStr rev')])) inst
       (ChildSpan ''Resolve rev'' sp) tr"

definition resolveRepository_request ::
    "string \<Rightarrow> SourcegraphInstance \<Rightarrow> span \<Rightarrow> tracer \<Rightarrow> request" where
  "resolveRepository_request cloneUrl inst sp tr =
     requestGraphQL_request resolveRepository_query (Json (JObj [(''cloneUrl'', JStr cloneUrl)])) inst
       (ChildSpan ''Resolve clone URL'' sp) tr"

definition queryExtensions_request :: "SourcegraphInstance \<Rightarrow> span \<Rightarrow> tracer \<Rightarrow> request" where
  "queryExtensions_request inst sp tr =
     requestGraphQL_request queryExtensions_query (Json (JObj [])) inst
       (ChildSpan ''Query extensions'' sp) tr"

subsection \<open>Notions used to state the properties\<close>

text \<open>The value at a property path such as \<^verbatim>\<open>data.search.results.results\<close>.\<close>

fun get_path :: "js_value \<Rightarrow> string list \<Rightarrow> js_error + js_value" where
  "get_path v [] = Inr v"
| "get_path v (p # ps) = andThen (get v p) (\<lambda>w. get_path w ps)"

definition nullish :: "js_value \<Rightarrow> bool" where
  "nullish v \<longleftrightarrow> v = Undefined \<or> v = Json JNull"

text \<open>The path can be followed and ends in \<^verbatim>\<open>null\<close> or \<^verbatim>\<open>undefined\<close> (an absent field).\<close>

definition nullish_at :: "js_value \<Rightarrow> string list \<Rightarrow> bool" where
  "nullish_at v ps = (case get_path v ps of Inl e \<Rightarrow> False | Inr w \<Rightarrow> nullish w)"

text \<open>The envelope has no errors to report: the field is absent or the empty array.\<close>

definition no_errors :: "envelope \<Rightarrow> bool" where
  "no_errors env \<longleftrightarrow> errors env = None \<or> errors env = Some []"

text \<open>The message of the error that \<^verbatim>\<open>requestGraphQL\<close> throws on a failed status.\<close>

definition status_line :: "response \<Rightarrow> string" where
  "status_line resp = string_of_nat (status resp) @ '' '' @ statusText resp"

text \<open>
  The spec's notation \<^verbatim>\<open><instanceUrl>/.api/graphql\<close>, read as text: the instance URL
  followed by the path.
\<close>

definition spec_endpoint :: "SourcegraphInstance \<Rightarrow> string" where
  "spec_endpoint inst = href (instanceUrl inst) @ ''/.api/graphql''"

subsection \<open>Example inputs\<close>

definition example_url :: URL where
  "example_url =
     \<lparr>scheme = Https, username = [], password = [], host = ''sourcegraph.example.com'',
      pathname = ''/'', query = None, fragment = None\<rparr>"

definition example_instance :: SourcegraphInstance where
  "example_instance = \<lparr>instanceUrl = example_url, accessToken = Some ''s3cret''\<rparr>"

text \<open>A response with status 200 whose body decodes to the given envelope.\<close>

definition response_200 :: "envelope \<Rightarrow> response" where
  "response_200 env = \<lparr>ok = True, status = 200, statusText = ''OK'', json = Inr env\<rparr>"

text \<open>A response with a failed status; its body would decode to a well-formed envelope.\<close>

definition response_404 :: response where
  "response_404 =
     \<lparr>ok = False, status = 404, statusText = ''Not Found'',
      json = Inr \<lparr>data = Json (JObj [(''repository'', JObj [(''name'', JStr ''a/b'')])]),
                 errors = None\<rparr>\<rparr>"

text \<open>An envelope that reports two errors, with the given \<^verbatim>\<open>data\<close>.\<close>

definition envelope_with_errors :: "js_value \<Rightarrow> envelope" where
  "envelope_with_errors d =
     \<lparr>data = d,
      errors = Some [\<lparr>message = ''boom'', path = ''search''\<rparr>,
                     \<lparr>message = ''bang'', path = ''search''\<rparr>]\<rparr>"

text \<open>An envelope without \<^verbatim>\<open>errors\<close>, and one well-formed \<^verbatim>\<open>data\<close> document for each operation.\<close>

definition envelope_of :: "json \<Rightarrow> envelope" where
  "envelope_of d = \<lparr>data = Json d, errors = None\<rparr>"

definition search_example :: json where
  "search_example =
     JObj [(''search'', JObj [(''results'', JObj [(''results'',
       JArr [JObj [(''repository'', JObj [(''name'', JStr ''github.com/a/b'')])]])])])]"

definition resolveRev_example :: json where
  "resolveRev_example =
     JObj [(''repository'', JObj [(''commit'', JObj [(''oid'', JStr ''abc123'')])])]"

definition resolveRepository_example :: json where
  "resolveRepository_example = JObj [(''repository'', JObj [(''name'', JStr ''github.com/a/b'')])]"

definition queryExtensions_example :: json where
  "queryExtensions_example =
     JObj [(''extensionRegistry'', JObj [(''extensions'', JObj [(''nodes'',
       JArr [JObj [(''extensionID'', JStr ''sourcegraph/typescript''),
                   (''manifest'', JObj [(''raw'', JStr ''{}'')])]])])])]"

definition repository_null :: json where
  "repository_null = JObj [(''repository'', JNull)]"

definition search_null :: json where
  "search_null = JObj [(''search'', JNull)]"

text \<open>An instance served under a path prefix, without a credential.\<close>

definition prefixed_instance :: SourcegraphInstance where
  "prefixed_instance =
     \<lparr>instanceUrl =
        \<lparr>scheme = Https, username = [], password = [], host = ''example.com'',
         pathname = ''/sourcegraph'', query = None, fragment = None\<rparr>,
      accessToken = None\<rparr>"

text \<open>An instance whose credential is the empty string.\<close>

definition empty_token_instance :: SourcegraphInstance where
  "empty_token_instance = \<lparr>instanceUrl = example_url, accessToken = Some []\<rparr>"

text \<open>Envelopes and \<^verbatim>\<open>data\<close> documents from which a field cannot be read.\<close>

definition data_null :: envelope where
  "data_null = \<lparr>data = Json JNull, errors = Some []\<rparr>"

definition data_absent :: envelope where
  "data_absent = \<lparr>data = Undefined, errors = None\<rparr>"

definition commit_null :: json where
  "commit_null = JObj [(''repository'', JObj [(''commit'', JNull)])]"

definition empty_data :: json where
  "empty_data = JObj []"

text \<open>
  A transport that knows one endpoint: it answers the \<^verbatim>\<open>POST\<close> of the query
  \<^verbatim>\<open>query { x }\<close> without variables to \<^verbatim>\<open>https://sourcegraph.example.com/.api/graphql\<close>
  with the given envelope, and fails on any other request.
\<close>

definition endpoint_only :: "envelope \<Rightarrow> transport" where
  "endpoint_only env req =
     (if href (url req) = ''https://sourcegraph.example.com/.api/graphql'' \<and>
         http_method req = ''POST'' \<and>
         body req = JObj [(''query'', JStr ''query { x }''), (''variables'', JObj [])] \<and>
         map_of (headers req) ''Accept'' = Some ''application/json'' \<and>
         map_of (headers req) ''Content-Type'' = Some ''application/json''
      then Inr (response_200 env)
      else Inl (TransportFailure ''no such endpoint''))"

text \<open>
  \<^verbatim>\<open>data.repository\<close> can be read and is falsy: what the guard of \<^verbatim>\<open>resolveRepository\<close>
  (line 134) tests, once the read of \<^verbatim>\<open>data.repository\<close> has not thrown.
\<close>

definition repository_falsy :: "js_value \<Rightarrow> bool" where
  "repository_falsy d = (case get d ''repository'' of Inl e \<Rightarrow> False | Inr a \<Rightarrow> \<not> truthy a)"

text \<open>A \<^verbatim>\<open>data\<close> object whose \<^verbatim>\<open>repository\<close> is \<^verbatim>\<open>false\<close>, and a \<^verbatim>\<open>data\<close> that is a string.\<close>

definition repository_false :: json where
  "repository_false = JObj [(''repository'', JBool False)]"

definition data_string :: json where
  "data_string = JStr ''abc''"

section \<open>Properties\<close>

subsection \<open>What each function does with the response to its request\<close>

lemma requestGraphQL_response:
  "tracedFetch (requestGraphQL_request q v inst sp tr) = Inr resp \<Longrightarrow>
   requestGraphQL tracedFetch q v inst sp tr =
     (if ok resp then json resp else Inl (Error (status_line resp)))"
  by (simp add: requestGraphQL_def andThen_def status_line_def)

lemma throw_graphql_errors_none:
  "no_errors env \<Longrightarrow> throw_graphql_errors (errors env) = Inr ()"
  by (auto simp: no_errors_def throw_graphql_errors_def)

lemma throw_graphql_errors_some:
  "throw_graphql_errors (Some (e # es)) =
     Inl (Error (''GraphQL Error:'' @ join LF (map message (e # es))))"
  by (simp add: throw_graphql_errors_def)

lemma search_response:
  "tracedFetch (search_request q inst sp tr) = Inr resp \<Longrightarrow>
   search tracedFetch q inst sp tr =
     (if ok resp
      then andThen (json resp) (\<lambda>env.
           andThen (throw_graphql_errors (errors env)) (\<lambda>_.
           andThen (get (data env) ''search'') (\<lambda>a.
           andThen (get a ''results'') (\<lambda>b. get b ''results''))))
      else Inl (Error (status_line resp)))"
  unfolding search_def tracePromise_def search_request_def
  by (simp add: requestGraphQL_response andThen_def)

lemma resolveRev_response:
  "tracedFetch (resolveRev_request repoName rev' inst sp tr) = Inr resp \<Longrightarrow>
   resolveRev tracedFetch repoName rev' inst sp tr =
     (if ok resp
      then andThen (json resp) (\<lambda>env.
           andThen (throw_graphql_errors (errors env)) (\<lambda>_.
           andThen (get (data env) ''repository'') (\<lambda>a.
           andThen (get a ''commit'') (\<lambda>b. get b ''oid''))))
      else Inl (Error (status_line resp)))"
  unfolding resolveRev_def tracePromise_def resolveRev_request_def
  by (simp add: requestGraphQL_response andThen_def)

lemma resolveRepository_response:
  "tracedFetch (resolveRepository_request cloneUrl inst sp tr) = Inr resp \<Longrightarrow>
   resolveRepository tracedFetch cloneUrl inst sp tr =
     (if ok resp
      then andThen (json resp) (\<lambda>env.
           andThen (throw_graphql_errors (errors env)) (\<lambda>_.
           andThen (get (data env) ''repository'') (\<lambda>a.
           if truthy a then get a ''name''
           else Inl (Error (''No repository found for clone URL '' @ cloneUrl @
                            '' on instance '' @ href (instanceUrl inst))))))
      else Inl (Error (status_line resp)))"
  unfolding resolveRepository_def tracePromise_def resolveRepository_request_def
  by (auto simp: requestGraphQL_response andThen_def split: sum.splits)

lemma queryExtensions_response:
  "tracedFetch (queryExtensions_request inst sp tr) = Inr resp \<Longrightarrow>
   queryExtensions tracedFetch inst sp tr =
     (if ok resp
      then andThen (json resp) (\<lambda>env.
           andThen (throw_graphql_errors (errors env)) (\<lambda>_.
           andThen (get (data env) ''extensionRegistry'') (\<lambda>a.
           andThen (get a ''extensions'') (\<lambda>b. get b ''nodes''))))
      else Inl (Error (status_line resp)))"
  unfolding queryExtensions_def tracePromise_def queryExtensions_request_def
  by (simp add: requestGraphQL_response andThen_def)


lemma get_error: "get v p = Inl e \<Longrightarrow> e = TypeError_read p"
  by (cases "(v, p)" rule: get.cases) auto

lemma get_nullish: "nullish v \<Longrightarrow> get v p = Inl (TypeError_read p)"
  by (auto simp: nullish_def)

subsection \<open>Failed status\<close>

text \<open>
  C2. When the response to the request has a status that is not successful (\<^verbatim>\<open>response.ok\<close>
  is false), \<^verbatim>\<open>requestGraphQL\<close> rejects with an error whose message is the status code, a
  space and the status text, and so does each of the four operations. The response is
  arbitrary otherwise: whatever its body would decode to, or fail to decode to, plays no
  part in the result.
\<close>

theorem failed_status_rejects:
  assumes "\<not> ok resp"
  shows "(tracedFetch (requestGraphQL_request q v inst sp tr) = Inr resp \<longrightarrow>
            requestGraphQL tracedFetch q v inst sp tr = Inl (Error (status_line resp))) \<and>
         (tracedFetch (search_request q' inst sp tr) = Inr resp \<longrightarrow>
            search tracedFetch q' inst sp tr = Inl (Error (status_line resp))) \<and>
         (tracedFetch (resolveRev_request repoName rev' inst sp tr) = Inr resp \<longrightarrow>
            resolveRev tracedFetch repoName rev' inst sp tr = Inl (Error (status_line resp))) \<and>
         (tracedFetch (resolveRepository_request cloneUrl inst sp tr) = Inr resp \<longrightarrow>
            resolveRepository tracedFetch cloneUrl inst sp tr = Inl (Error (status_line resp))) \<and>
         (tracedFetch (queryExtensions_request inst sp tr) = Inr resp \<longrightarrow>
            queryExtensions tracedFetch inst sp tr = Inl (Error (status_line resp)))"
  using assms
  by (simp add: requestGraphQL_response search_response resolveRev_response
      resolveRepository_response queryExtensions_response)

theorem failed_status_rejects_witness:
  "\<not> ok response_404 \<and>
   requestGraphQL (\<lambda>_. Inr response_404) ''query { x }'' Undefined example_instance (Span 0) (Tracer 0)
     = Inl (Error ''404 Not Found'') \<and>
   search (\<lambda>_. Inr response_404) ''foo'' example_instance (Span 0) (Tracer 0)
     = Inl (Error ''404 Not Found'') \<and>
   resolveRev (\<lambda>_. Inr response_404) ''a/b'' ''HEAD'' example_instance (Span 0) (Tracer 0)
     = Inl (Error ''404 Not Found'') \<and>
   resolveRepository (\<lambda>_. Inr response_404) ''https://x/y.git'' example_instance (Span 0) (Tracer 0)
     = Inl (Error ''404 Not Found'') \<and>
   queryExtensions (\<lambda>_. Inr response_404) example_instance (Span 0) (Tracer 0)
     = Inl (Error ''404 Not Found'')"
proof -
  have n: "\<not> ok response_404" by (simp add: response_404_def)
  have m: "status_line response_404 = ''404 Not Found''"
    by (simp add: status_line_def response_404_def)
  show ?thesis
    using n failed_status_rejects [OF n, where tracedFetch = "\<lambda>_. Inr response_404"
        and q = "''query { x }''" and v = Undefined and inst = example_instance and sp = "Span 0"
        and tr = "Tracer 0" and q' = "''foo''" and repoName = "''a/b''" and rev' = "''HEAD''"
        and cloneUrl = "''https://x/y.git''"]
    by (simp add: m)
qed

subsection \<open>Successful status\<close>

text \<open>
  C7. When the response has a successful status, \<^verbatim>\<open>requestGraphQL\<close> resolves with the
  envelope that the body decodes to, as it is. Nothing is assumed of the envelope: the
  function does not look at \<^verbatim>\<open>data\<close> or \<^verbatim>\<open>errors\<close>, and it resolves also when \<^verbatim>\<open>errors\<close>
  is a non-empty array.
\<close>

theorem requestGraphQL_returns_envelope:
  assumes "tracedFetch (requestGraphQL_request q v inst sp tr) = Inr resp"
    and "ok resp" and "json resp = Inr env"
  shows "requestGraphQL tracedFetch q v inst sp tr = Inr env"
  using assms by (simp add: requestGraphQL_response)

theorem requestGraphQL_returns_envelope_witness:
  "ok (response_200 (envelope_with_errors Undefined)) \<and>
   json (response_200 (envelope_with_errors Undefined)) = Inr (envelope_with_errors Undefined) \<and>
   requestGraphQL (\<lambda>_. Inr (response_200 (envelope_with_errors Undefined))) ''query { x }''
       Undefined example_instance (Span 0) (Tracer 0)
     = Inr \<lparr>data = Undefined,
            errors = Some [\<lparr>message = ''boom'', path = ''search''\<rparr>,
                           \<lparr>message = ''bang'', path = ''search''\<rparr>]\<rparr>"
  using requestGraphQL_returns_envelope [where tracedFetch = "\<lambda>_. Inr (response_200 (envelope_with_errors Undefined))"
      and resp = "response_200 (envelope_with_errors Undefined)" and env = "envelope_with_errors Undefined"
      and q = "''query { x }''" and v = Undefined and inst = example_instance
      and sp = "Span 0" and tr = "Tracer 0"]
  by (simp add: response_200_def envelope_with_errors_def)

subsection \<open>Errors reported in the envelope\<close>

text \<open>
  C1. When the response is successful and the envelope's \<^verbatim>\<open>errors\<close> is a non-empty array,
  each of \<^verbatim>\<open>search\<close>, \<^verbatim>\<open>resolveRev\<close>, \<^verbatim>\<open>resolveRepository\<close> and \<^verbatim>\<open>queryExtensions\<close>
  rejects with an error whose message is \<^verbatim>\<open>GraphQL Error:\<close> followed by the messages of
  the errors, in their order, joined by line feeds. Nothing is assumed of \<^verbatim>\<open>data\<close>: the
  rejection is the same whether it is present, absent or of a shape from which the field
  could not be read, so the check comes before any read of \<^verbatim>\<open>data\<close>.
\<close>

theorem graphql_errors_reject:
  assumes "ok resp" and "json resp = Inr env" and "errors env = Some (e # es)"
  shows "(tracedFetch (search_request q inst sp tr) = Inr resp \<longrightarrow>
            search tracedFetch q inst sp tr
              = Inl (Error (''GraphQL Error:'' @ join LF (map message (e # es))))) \<and>
         (tracedFetch (resolveRev_request repoName rev' inst sp tr) = Inr resp \<longrightarrow>
            resolveRev tracedFetch repoName rev' inst sp tr
              = Inl (Error (''GraphQL Error:'' @ join LF (map message (e # es))))) \<and>
         (tracedFetch (resolveRepository_request cloneUrl inst sp tr) = Inr resp \<longrightarrow>
            resolveRepository tracedFetch cloneUrl inst sp tr
              = Inl (Error (''GraphQL Error:'' @ join LF (map message (e # es))))) \<and>
         (tracedFetch (queryExtensions_request inst sp tr) = Inr resp \<longrightarrow>
            queryExtensions tracedFetch inst sp tr
              = Inl (Error (''GraphQL Error:'' @ join LF (map message (e # es)))))"
  using assms
  by (simp add: search_response resolveRev_response resolveRepository_response
      queryExtensions_response throw_graphql_errors_some andThen_def)

theorem graphql_errors_reject_witness:
  "ok (response_200 (envelope_with_errors Undefined)) \<and>
   json (response_200 (envelope_with_errors Undefined)) = Inr (envelope_with_errors Undefined) \<and>
   errors (envelope_with_errors Undefined)
     = Some [\<lparr>message = ''boom'', path = ''search''\<rparr>, \<lparr>message = ''bang'', path = ''search''\<rparr>] \<and>
   search (\<lambda>_. Inr (response_200 (envelope_with_errors Undefined))) ''foo''
       example_instance (Span 0) (Tracer 0)
     = Inl (Error (''GraphQL Error:boom'' @ [CHR 0x0A] @ ''bang'')) \<and>
   resolveRev (\<lambda>_. Inr (response_200 (envelope_with_errors Undefined))) ''a/b'' ''HEAD''
       example_instance (Span 0) (Tracer 0)
     = Inl (Error (''GraphQL Error:boom'' @ [CHR 0x0A] @ ''bang'')) \<and>
   resolveRepository (\<lambda>_. Inr (response_200 (envelope_with_errors Undefined))) ''https://x/y.git''
       example_instance (Span 0) (Tracer 0)
     = Inl (Error (''GraphQL Error:boom'' @ [CHR 0x0A] @ ''bang'')) \<and>
   queryExtensions (\<lambda>_. Inr (response_200 (envelope_with_errors Undefined)))
       example_instance (Span 0) (Tracer 0)
     = Inl (Error (''GraphQL Error:boom'' @ [CHR 0x0A] @ ''bang'')) \<and>
   search (\<lambda>_. Inr (response_200 (envelope_with_errors (Json search_example)))) ''foo''
       example_instance (Span 0) (Tracer 0)
     = Inl (Error (''GraphQL Error:boom'' @ [CHR 0x0A] @ ''bang''))"
  using graphql_errors_reject [where tracedFetch = "\<lambda>_. Inr (response_200 (envelope_with_errors Undefined))"
      and resp = "response_200 (envelope_with_errors Undefined)" and env = "envelope_with_errors Undefined"
      and e = "\<lparr>message = ''boom'', path = ''search''\<rparr>"
      and es = "[\<lparr>message = ''bang'', path = ''search''\<rparr>]"
      and q = "''foo''" and repoName = "''a/b''" and rev' = "''HEAD''"
      and cloneUrl = "''https://x/y.git''" and inst = example_instance
      and sp = "Span 0" and tr = "Tracer 0"]
    graphql_errors_reject [where tracedFetch = "\<lambda>_. Inr (response_200 (envelope_with_errors (Json search_example)))"
      and resp = "response_200 (envelope_with_errors (Json search_example))"
      and env = "envelope_with_errors (Json search_example)"
      and e = "\<lparr>message = ''boom'', path = ''search''\<rparr>"
      and es = "[\<lparr>message = ''bang'', path = ''search''\<rparr>]"
      and q = "''foo''" and inst = example_instance and sp = "Span 0" and tr = "Tracer 0"]
  by (simp add: response_200_def envelope_with_errors_def LF_def)

subsection \<open>No repository for a clone URL\<close>

text \<open>
  C3. When the response is successful, the envelope reports no errors and
  \<^verbatim>\<open>data.repository\<close> is \<^verbatim>\<open>null\<close>, \<^verbatim>\<open>resolveRepository\<close> rejects with the error
  \<^verbatim>\<open>No repository found for clone URL <cloneUrl> on instance <instanceUrl>\<close>, whose message
  holds the clone URL argument and the serialised instance URL. It is the only operation
  that does: on the same envelope \<^verbatim>\<open>resolveRev\<close> fails with the \<^verbatim>\<open>TypeError\<close> of reading
  \<^verbatim>\<open>commit\<close> of \<^verbatim>\<open>null\<close>, and \<^verbatim>\<open>search\<close> and \<^verbatim>\<open>queryExtensions\<close> throw no \<^verbatim>\<open>Error\<close> of
  their own at all.
\<close>

theorem resolveRepository_not_found:
  assumes "ok resp" and "json resp = Inr env" and "no_errors env"
    and "get (data env) ''repository'' = Inr (Json JNull)"
  shows "(tracedFetch (resolveRepository_request cloneUrl inst sp tr) = Inr resp \<longrightarrow>
            resolveRepository tracedFetch cloneUrl inst sp tr
              = Inl (Error (''No repository found for clone URL '' @ cloneUrl @
                            '' on instance '' @ href (instanceUrl inst)))) \<and>
         (tracedFetch (resolveRev_request repoName rev' inst sp tr) = Inr resp \<longrightarrow>
            resolveRev tracedFetch repoName rev' inst sp tr = Inl (TypeError_read ''commit'')) \<and>
         (tracedFetch (search_request q inst sp tr) = Inr resp \<longrightarrow>
            search tracedFetch q inst sp tr \<noteq> Inl (Error m)) \<and>
         (tracedFetch (queryExtensions_request inst sp tr) = Inr resp \<longrightarrow>
            queryExtensions tracedFetch inst sp tr \<noteq> Inl (Error m))"
  using assms
  by (auto simp: search_response resolveRev_response resolveRepository_response
      queryExtensions_response throw_graphql_errors_none andThen_def
      split: sum.splits dest: get_error)

theorem resolveRepository_not_found_witness:
  "ok (response_200 (envelope_of repository_null)) \<and>
   json (response_200 (envelope_of repository_null)) = Inr (envelope_of repository_null) \<and>
   no_errors (envelope_of repository_null) \<and>
   get (data (envelope_of repository_null)) ''repository'' = Inr (Json JNull) \<and>
   resolveRepository (\<lambda>_. Inr (response_200 (envelope_of repository_null))) ''https://x/y.git''
       example_instance (Span 0) (Tracer 0)
     = Inl (Error ''No repository found for clone URL https://x/y.git on instance https://sourcegraph.example.com/'') \<and>
   resolveRev (\<lambda>_. Inr (response_200 (envelope_of repository_null))) ''a/b'' ''HEAD''
       example_instance (Span 0) (Tracer 0)
     = Inl (TypeError_read ''commit'') \<and>
   search (\<lambda>_. Inr (response_200 (envelope_of repository_null))) ''foo''
       example_instance (Span 0) (Tracer 0)
     \<noteq> Inl (Error ''No repository found for clone URL https://x/y.git on instance https://sourcegraph.example.com/'') \<and>
   queryExtensions (\<lambda>_. Inr (response_200 (envelope_of repository_null)))
       example_instance (Span 0) (Tracer 0)
     \<noteq> Inl (Error ''No repository found for clone URL https://x/y.git on instance https://sourcegraph.example.com/'')"
proof -
  have h: "href (instanceUrl example_instance) = ''https://sourcegraph.example.com/''"
    by (simp add: example_instance_def example_url_def href_def)
  have a: "ok (response_200 (envelope_of repository_null))"
    and b: "json (response_200 (envelope_of repository_null)) = Inr (envelope_of repository_null)"
    and c: "no_errors (envelope_of repository_null)"
    and d: "get (data (envelope_of repository_null)) ''repository'' = Inr (Json JNull)"
    by (simp_all add: response_200_def envelope_of_def repository_null_def no_errors_def)
  show ?thesis
    using a b c d resolveRepository_not_found [OF a b c d,
        where tracedFetch = "\<lambda>_. Inr (response_200 (envelope_of repository_null))"
        and cloneUrl = "''https://x/y.git''" and inst = example_instance
        and sp = "Span 0" and tr = "Tracer 0" and repoName = "''a/b''" and rev' = "''HEAD''"
        and q = "''foo''"
        and m = "''No repository found for clone URL https://x/y.git on instance https://sourcegraph.example.com/''"]
    by (simp add: h)
qed

subsection \<open>The extracted field\<close>

text \<open>
  A successful response whose envelope reports no errors does not make an operation
  resolve by itself: on \<^verbatim>\<open>{"data": {"repository": null}}\<close> the operation
  \<^verbatim>\<open>resolveRepository\<close> rejects, and on \<^verbatim>\<open>{"data": {"search": null}}\<close> so does \<^verbatim>\<open>search\<close>.
\<close>

theorem extraction_rejects_counterexample:
  "ok (response_200 (envelope_of repository_null)) \<and>
   no_errors (envelope_of repository_null) \<and>
   resolveRepository (\<lambda>_. Inr (response_200 (envelope_of repository_null))) ''https://x/y.git''
       example_instance (Span 0) (Tracer 0)
     = Inl (Error ''No repository found for clone URL https://x/y.git on instance https://sourcegraph.example.com/'') \<and>
   ok (response_200 (envelope_of search_null)) \<and>
   no_errors (envelope_of search_null) \<and>
   search (\<lambda>_. Inr (response_200 (envelope_of search_null))) ''foo''
       example_instance (Span 0) (Tracer 0)
     = Inl (TypeError_read ''results'')"
  by (simp add: resolveRepository_response search_response response_200_def envelope_of_def
      repository_null_def search_null_def no_errors_def throw_graphql_errors_def andThen_def
      example_instance_def example_url_def href_def)

text \<open>
  C4, amended. When the response is successful, the envelope reports no errors (the array
  is absent or empty) and the path that the operation reads can be followed in \<^verbatim>\<open>data\<close>,
  that is no value before its last step is \<^verbatim>\<open>null\<close> or \<^verbatim>\<open>undefined\<close>, the operation
  resolves with exactly the value at the end of the path: \<^verbatim>\<open>data.search.results.results\<close>
  for \<^verbatim>\<open>search\<close>, \<^verbatim>\<open>data.repository.commit.oid\<close> for \<^verbatim>\<open>resolveRev\<close>,
  \<^verbatim>\<open>data.extensionRegistry.extensions.nodes\<close> for \<^verbatim>\<open>queryExtensions\<close>, and
  \<^verbatim>\<open>data.repository.name\<close> for \<^verbatim>\<open>resolveRepository\<close>, which needs \<^verbatim>\<open>data.repository\<close> to
  be truthy as well.
\<close>

theorem extraction_resolves:
  assumes "ok resp" and "json resp = Inr env" and "no_errors env"
  shows "(tracedFetch (search_request q inst sp tr) = Inr resp \<and>
          get_path (data env) [''search'', ''results'', ''results''] = Inr v \<longrightarrow>
            search tracedFetch q inst sp tr = Inr v) \<and>
         (tracedFetch (resolveRev_request repoName rev' inst sp tr) = Inr resp \<and>
          get_path (data env) [''repository'', ''commit'', ''oid''] = Inr v \<longrightarrow>
            resolveRev tracedFetch repoName rev' inst sp tr = Inr v) \<and>
         (tracedFetch (resolveRepository_request cloneUrl inst sp tr) = Inr resp \<and>
          get_path (data env) [''repository''] = Inr r \<and> truthy r \<and>
          get_path (data env) [''repository'', ''name''] = Inr v \<longrightarrow>
            resolveRepository tracedFetch cloneUrl inst sp tr = Inr v) \<and>
         (tracedFetch (queryExtensions_request inst sp tr) = Inr resp \<and>
          get_path (data env) [''extensionRegistry'', ''extensions'', ''nodes''] = Inr v \<longrightarrow>
            queryExtensions tracedFetch inst sp tr = Inr v)"
  using assms
  by (auto simp: search_response resolveRev_response resolveRepository_response
      queryExtensions_response throw_graphql_errors_none andThen_def split: sum.splits)

theorem extraction_resolves_witness:
  "search (\<lambda>_. Inr (response_200 (envelope_of search_example))) ''foo''
       example_instance (Span 0) (Tracer 0)
     = Inr (Json (JArr [JObj [(''repository'', JObj [(''name'', JStr ''github.com/a/b'')])]])) \<and>
   resolveRev (\<lambda>_. Inr (response_200 (envelope_of resolveRev_example))) ''github.com/a/b'' ''HEAD''
       example_instance (Span 0) (Tracer 0)
     = Inr (Json (JStr ''abc123'')) \<and>
   resolveRepository (\<lambda>_. Inr (response_200 (envelope_of resolveRepository_example))) ''https://x/y.git''
       example_instance (Span 0) (Tracer 0)
     = Inr (Json (JStr ''github.com/a/b'')) \<and>
   queryExtensions (\<lambda>_. Inr (response_200 (envelope_of queryExtensions_example)))
       example_instance (Span 0) (Tracer 0)
     = Inr (Json (JArr [JObj [(''extensionID'', JStr ''sourcegraph/typescript''),
                              (''manifest'', JObj [(''raw'', JStr ''{}'')])]]))"
proof -
  have a: "ok (response_200 (envelope_of d))"
    and b: "json (response_200 (envelope_of d)) = Inr (envelope_of d)"
    and c: "no_errors (envelope_of d)" for d
    by (simp_all add: response_200_def envelope_of_def no_errors_def)
  have 1: "search (\<lambda>_. Inr (response_200 (envelope_of search_example))) ''foo''
       example_instance (Span 0) (Tracer 0)
     = Inr (Json (JArr [JObj [(''repository'', JObj [(''name'', JStr ''github.com/a/b'')])]]))"
    using extraction_resolves [OF a [of search_example] b [of search_example] c [of search_example],
        where tracedFetch = "\<lambda>_. Inr (response_200 (envelope_of search_example))"
        and q = "''foo''" and inst = example_instance and sp = "Span 0" and tr = "Tracer 0"
        and v = "Json (JArr [JObj [(''repository'', JObj [(''name'', JStr ''github.com/a/b'')])]])"]
    by (simp add: envelope_of_def search_example_def andThen_def)
  have 2: "resolveRev (\<lambda>_. Inr (response_200 (envelope_of resolveRev_example))) ''github.com/a/b'' ''HEAD''
       example_instance (Span 0) (Tracer 0)
     = Inr (Json (JStr ''abc123''))"
    using extraction_resolves [OF a [of resolveRev_example] b [of resolveRev_example]
        c [of resolveRev_example],
        where tracedFetch = "\<lambda>_. Inr (response_200 (envelope_of resolveRev_example))"
        and repoName = "''github.com/a/b''" and rev' = "''HEAD''"
        and inst = example_instance and sp = "Span 0" and tr = "Tracer 0"
        and v = "Json (JStr ''abc123'')"]
    by (simp add: envelope_of_def resolveRev_example_def andThen_def)
  have 3: "resolveRepository (\<lambda>_. Inr (response_200 (envelope_of resolveRepository_example)))
       ''https://x/y.git'' example_instance (Span 0) (Tracer 0)
     = Inr (Json (JStr ''github.com/a/b''))"
    using extraction_resolves [OF a [of resolveRepository_example] b [of resolveRepository_example]
        c [of resolveRepository_example],
        where tracedFetch = "\<lambda>_. Inr (response_200 (envelope_of resolveRepository_example))"
        and cloneUrl = "''https://x/y.git''"
        and inst = example_instance and sp = "Span 0" and tr = "Tracer 0"
        and r = "Json (JObj [(''name'', JStr ''github.com/a/b'')])"
        and v = "Json (JStr ''github.com/a/b'')"]
    by (simp add: envelope_of_def resolveRepository_example_def andThen_def)
  have 4: "queryExtensions (\<lambda>_. Inr (response_200 (envelope_of queryExtensions_example)))
       example_instance (Span 0) (Tracer 0)
     = Inr (Json (JArr [JObj [(''extensionID'', JStr ''sourcegraph/typescript''),
                              (''manifest'', JObj [(''raw'', JStr ''{}'')])]]))"
    using extraction_resolves [OF a [of queryExtensions_example] b [of queryExtensions_example]
        c [of queryExtensions_example],
        where tracedFetch = "\<lambda>_. Inr (response_200 (envelope_of queryExtensions_example))"
        and inst = example_instance and sp = "Span 0" and tr = "Tracer 0"
        and v = "Json (JArr [JObj [(''extensionID'', JStr ''sourcegraph/typescript''),
                               (''manifest'', JObj [(''raw'', JStr ''{}'')])]])"]
    by (simp add: envelope_of_def queryExtensions_example_def andThen_def)
  show ?thesis
    using 1 2 3 4 by simp
qed

subsection \<open>The request\<close>

text \<open>
  The URL of the request is not always the instance URL followed by \<^verbatim>\<open>/.api/graphql\<close>: for
  the instance \<^verbatim>\<open>https://example.com/sourcegraph\<close> the request goes to
  \<^verbatim>\<open>https://example.com/.api/graphql\<close>, without the path of the instance.
\<close>

theorem request_url_counterexample:
  "href (instanceUrl prefixed_instance) = ''https://example.com/sourcegraph'' \<and>
   spec_endpoint prefixed_instance = ''https://example.com/sourcegraph/.api/graphql'' \<and>
   href (url (requestGraphQL_request ''query { x }'' (Json (JObj [])) prefixed_instance (Span 0) (Tracer 0)))
     = ''https://example.com/.api/graphql'' \<and>
   href (url (requestGraphQL_request ''query { x }'' (Json (JObj [])) prefixed_instance (Span 0) (Tracer 0)))
     \<noteq> spec_endpoint prefixed_instance"
  by (simp add: spec_endpoint_def prefixed_instance_def href_def requestGraphQL_request_def
      new_URL_api_graphql_def)

text \<open>
  C5, amended. \<^verbatim>\<open>requestGraphQL\<close> hands one request to the transport and continues with
  what the transport answers to it: its result is the answer to that request, passed
  through the status check and the decoding. The method of the request is \<^verbatim>\<open>POST\<close>; the
  URL is the reference \<^verbatim>\<open>/.api/graphql\<close> resolved against the instance URL: the scheme,
  credentials, host and port of the instance URL, the path \<^verbatim>\<open>/.api/graphql\<close>, no query and
  no fragment; the body is the JSON object with the query string under \<^verbatim>\<open>query\<close> and the
  variables under \<^verbatim>\<open>variables\<close> (the empty object when the argument is \<^verbatim>\<open>undefined\<close>); the
  headers \<^verbatim>\<open>Accept\<close> and \<^verbatim>\<open>Content-Type\<close> are \<^verbatim>\<open>application/json\<close>. When the instance URL
  has the path \<^verbatim>\<open>/\<close> and neither query nor fragment, the URL of the request is the
  instance URL, which then ends in a slash, followed by \<^verbatim>\<open>.api/graphql\<close>.
\<close>

theorem requestGraphQL_request_shape:
  "(let r = requestGraphQL_request q (Json vars) inst sp tr in
      requestGraphQL tracedFetch q (Json vars) inst sp tr
        = andThen (tracedFetch r) (\<lambda>response.
            if ok response then json response else Inl (Error (status_line response))) \<and>
      requestGraphQL tracedFetch q Undefined inst sp tr
        = andThen (tracedFetch (requestGraphQL_request q Undefined inst sp tr)) (\<lambda>response.
            if ok response then json response else Inl (Error (status_line response))) \<and>
      url r = (instanceUrl inst)\<lparr>pathname := ''/.api/graphql'', query := None, fragment := None\<rparr> \<and>
      http_method r = ''POST'' \<and>
      body r = JObj [(''query'', JStr q), (''variables'', vars)] \<and>
      body (requestGraphQL_request q Undefined inst sp tr)
        = JObj [(''query'', JStr q), (''variables'', JObj [])] \<and>
      map_of (headers r) ''Accept'' = Some ''application/json'' \<and>
      map_of (headers r) ''Content-Type'' = Some ''application/json'' \<and>
      requestGraphQL tracedFetch q (Json vars) inst sp tr
        = requestGraphQL (\<lambda>x. if x = r then tracedFetch x else Inl (TransportFailure ''not sent''))
            q (Json vars) inst sp tr \<and>
      (pathname (instanceUrl inst) = ''/'' \<and> query (instanceUrl inst) = None \<and>
       fragment (instanceUrl inst) = None \<longrightarrow>
         href (url r) = href (instanceUrl inst) @ ''.api/graphql''))"
proof -
  have sent: "requestGraphQL tracedFetch q v inst sp tr
      = andThen (tracedFetch (requestGraphQL_request q v inst sp tr)) (\<lambda>response.
          if ok response then json response else Inl (Error (status_line response)))" for v
    by (cases "tracedFetch (requestGraphQL_request q v inst sp tr)")
      (simp_all add: requestGraphQL_def andThen_def status_line_def)
  have shape:
    "url (requestGraphQL_request q (Json vars) inst sp tr)
       = (instanceUrl inst)\<lparr>pathname := ''/.api/graphql'', query := None, fragment := None\<rparr>"
    "http_method (requestGraphQL_request q (Json vars) inst sp tr) = ''POST''"
    "body (requestGraphQL_request q (Json vars) inst sp tr)
       = JObj [(''query'', JStr q), (''variables'', vars)]"
    "body (requestGraphQL_request q Undefined inst sp tr)
       = JObj [(''query'', JStr q), (''variables'', JObj [])]"
    "map_of (headers (requestGraphQL_request q (Json vars) inst sp tr)) ''Accept''
       = Some ''application/json''"
    "map_of (headers (requestGraphQL_request q (Json vars) inst sp tr)) ''Content-Type''
       = Some ''application/json''"
    by (simp_all add: requestGraphQL_request_def new_URL_api_graphql_def
        requestGraphQL_headers_def requestGraphQL_body_def)
  have only: "requestGraphQL tracedFetch q (Json vars) inst sp tr
      = requestGraphQL
          (\<lambda>x. if x = requestGraphQL_request q (Json vars) inst sp tr then tracedFetch x
               else Inl (TransportFailure ''not sent''))
          q (Json vars) inst sp tr"
    by (simp add: requestGraphQL_def)
  have root: "pathname (instanceUrl inst) = ''/'' \<and> query (instanceUrl inst) = None \<and>
       fragment (instanceUrl inst) = None \<longrightarrow>
         href (url (requestGraphQL_request q (Json vars) inst sp tr))
           = href (instanceUrl inst) @ ''.api/graphql''"
    by (simp add: requestGraphQL_request_def new_URL_api_graphql_def href_def)
  show ?thesis
    unfolding Let_def
    using sent [of "Json vars"] sent [of Undefined] shape only root
    by (intro conjI) assumption+
qed

theorem requestGraphQL_request_shape_witness:
  "pathname (instanceUrl example_instance) = ''/'' \<and>
   query (instanceUrl example_instance) = None \<and>
   fragment (instanceUrl example_instance) = None \<and>
   href (instanceUrl example_instance) = ''https://sourcegraph.example.com/'' \<and>
   href (url (requestGraphQL_request ''query { x }'' (Json (JObj [])) example_instance (Span 0) (Tracer 0)))
     = ''https://sourcegraph.example.com/.api/graphql'' \<and>
   http_method (requestGraphQL_request ''query { x }'' (Json (JObj [])) example_instance (Span 0) (Tracer 0))
     = ''POST'' \<and>
   body (requestGraphQL_request ''query { x }'' (Json (JObj [])) example_instance (Span 0) (Tracer 0))
     = JObj [(''query'', JStr ''query { x }''), (''variables'', JObj [])] \<and>
   requestGraphQL (endpoint_only (envelope_of search_example)) ''query { x }'' (Json (JObj []))
       example_instance (Span 0) (Tracer 0)
     = Inr (envelope_of search_example) \<and>
   requestGraphQL (endpoint_only (envelope_of search_example)) ''query { x }'' (Json (JObj []))
       prefixed_instance (Span 0) (Tracer 0)
     = Inl (TransportFailure ''no such endpoint'')"
proof -
  have h: "href (instanceUrl example_instance) = ''https://sourcegraph.example.com/''"
    by (simp add: example_instance_def example_url_def href_def)
  have p: "pathname (instanceUrl example_instance) = ''/''"
    "query (instanceUrl example_instance) = None"
    "fragment (instanceUrl example_instance) = None"
    by (simp_all add: example_instance_def example_url_def)
  note s = requestGraphQL_request_shape [where q = "''query { x }''" and vars = "JObj []"
      and inst = example_instance and sp = "Span 0" and tr = "Tracer 0"
      and tracedFetch = "endpoint_only (envelope_of search_example)", unfolded Let_def]
  from s p have 1:
    "href (url (requestGraphQL_request ''query { x }'' (Json (JObj [])) example_instance
                  (Span 0) (Tracer 0)))
       = href (instanceUrl example_instance) @ ''.api/graphql''"
    by blast
  from s have 2:
    "http_method (requestGraphQL_request ''query { x }'' (Json (JObj [])) example_instance
                    (Span 0) (Tracer 0)) = ''POST''"
    by blast
  from s have 3:
    "body (requestGraphQL_request ''query { x }'' (Json (JObj [])) example_instance
             (Span 0) (Tracer 0))
       = JObj [(''query'', JStr ''query { x }''), (''variables'', JObj [])]"
    by blast
  from s have 4:
    "map_of (headers (requestGraphQL_request ''query { x }'' (Json (JObj [])) example_instance
                       (Span 0) (Tracer 0))) ''Accept'' = Some ''application/json''"
    "map_of (headers (requestGraphQL_request ''query { x }'' (Json (JObj [])) example_instance
                       (Span 0) (Tracer 0))) ''Content-Type'' = Some ''application/json''"
    by blast+
  from s have 5:
    "requestGraphQL (endpoint_only (envelope_of search_example)) ''query { x }'' (Json (JObj []))
        example_instance (Span 0) (Tracer 0)
      = andThen (endpoint_only (envelope_of search_example)
                   (requestGraphQL_request ''query { x }'' (Json (JObj [])) example_instance
                      (Span 0) (Tracer 0)))
          (\<lambda>response. if ok response then json response else Inl (Error (status_line response)))"
    by blast
  have 6: "endpoint_only (envelope_of search_example)
             (requestGraphQL_request ''query { x }'' (Json (JObj [])) example_instance
                (Span 0) (Tracer 0))
           = Inr (response_200 (envelope_of search_example))"
    by (simp add: endpoint_only_def 1 2 3 4 h)
  have 7: "requestGraphQL (endpoint_only (envelope_of search_example)) ''query { x }'' (Json (JObj []))
        example_instance (Span 0) (Tracer 0) = Inr (envelope_of search_example)"
    by (simp add: 5 6 andThen_def response_200_def)
  note t = requestGraphQL_request_shape [where q = "''query { x }''" and vars = "JObj []"
      and inst = prefixed_instance and sp = "Span 0" and tr = "Tracer 0"
      and tracedFetch = "endpoint_only (envelope_of search_example)", unfolded Let_def]
  from t have 8:
    "requestGraphQL (endpoint_only (envelope_of search_example)) ''query { x }'' (Json (JObj []))
        prefixed_instance (Span 0) (Tracer 0)
      = andThen (endpoint_only (envelope_of search_example)
                   (requestGraphQL_request ''query { x }'' (Json (JObj [])) prefixed_instance
                      (Span 0) (Tracer 0)))
          (\<lambda>response. if ok response then json response else Inl (Error (status_line response)))"
    by blast
  from t have 9:
    "url (requestGraphQL_request ''query { x }'' (Json (JObj [])) prefixed_instance (Span 0) (Tracer 0))
      = (instanceUrl prefixed_instance)\<lparr>pathname := ''/.api/graphql'', query := None, fragment := None\<rparr>"
    by blast
  have "href (url (requestGraphQL_request ''query { x }'' (Json (JObj [])) prefixed_instance
                     (Span 0) (Tracer 0)))
        = ''https://example.com/.api/graphql''"
    unfolding 9 by (simp add: prefixed_instance_def href_def)
  then have "endpoint_only (envelope_of search_example)
          (requestGraphQL_request ''query { x }'' (Json (JObj [])) prefixed_instance
             (Span 0) (Tracer 0))
        = Inl (TransportFailure ''no such endpoint'')"
    by (simp add: endpoint_only_def)
  then have 10:
    "requestGraphQL (endpoint_only (envelope_of search_example)) ''query { x }'' (Json (JObj []))
        prefixed_instance (Span 0) (Tracer 0) = Inl (TransportFailure ''no such endpoint'')"
    by (simp add: 8 andThen_def)
  show ?thesis
    by (simp add: p h 1 2 3 7 10)
qed

subsection \<open>The credential\<close>

text \<open>
  A credential can be supplied and still no \<^verbatim>\<open>Authorization\<close> header be sent: the empty
  string.
\<close>

theorem authorization_counterexample:
  "accessToken empty_token_instance = Some [] \<and>
   map_of (headers (requestGraphQL_request ''query { x }'' (Json (JObj [])) empty_token_instance
                      (Span 0) (Tracer 0))) ''Authorization''
     \<noteq> Some (''token '' @ [])"
  by (simp add: empty_token_instance_def requestGraphQL_request_def requestGraphQL_headers_def)

text \<open>
  C6, amended. The headers of the request include \<^verbatim>\<open>Authorization: token <credential>\<close>
  when the instance descriptor has a credential that is not the empty string, and no
  \<^verbatim>\<open>Authorization\<close> header when it has no credential; in both cases they are otherwise
  \<^verbatim>\<open>Accept\<close> and \<^verbatim>\<open>Content-Type\<close> alone.
\<close>

theorem authorization_header:
  "(accessToken inst = Some t \<and> t \<noteq> [] \<longrightarrow>
      headers (requestGraphQL_request q v inst sp tr)
        = [(''Accept'', ''application/json''), (''Content-Type'', ''application/json''),
           (''Authorization'', ''token '' @ t)] \<and>
      map_of (headers (requestGraphQL_request q v inst sp tr)) ''Authorization''
        = Some (''token '' @ t)) \<and>
   (accessToken inst = None \<longrightarrow>
      headers (requestGraphQL_request q v inst sp tr)
        = [(''Accept'', ''application/json''), (''Content-Type'', ''application/json'')] \<and>
      map_of (headers (requestGraphQL_request q v inst sp tr)) ''Authorization'' = None)"
  by (simp add: requestGraphQL_request_def requestGraphQL_headers_def)

theorem authorization_header_witness:
  "accessToken example_instance = Some ''s3cret'' \<and> ''s3cret'' \<noteq> [] \<and>
   map_of (headers (requestGraphQL_request ''query { x }'' (Json (JObj [])) example_instance
                      (Span 0) (Tracer 0))) ''Authorization''
     = Some ''token s3cret'' \<and>
   accessToken prefixed_instance = None \<and>
   map_of (headers (requestGraphQL_request ''query { x }'' (Json (JObj [])) prefixed_instance
                      (Span 0) (Tracer 0))) ''Authorization''
     = None"
proof -
  have a: "accessToken example_instance = Some ''s3cret''"
    by (simp add: example_instance_def)
  have b: "accessToken prefixed_instance = None"
    by (simp add: prefixed_instance_def)
  show ?thesis
    using authorization_header [where inst = example_instance and t = "''s3cret''"
        and q = "''query { x }''" and v = "Json (JObj [])" and sp = "Span 0" and tr = "Tracer 0"]
      authorization_header [where inst = prefixed_instance
        and q = "''query { x }''" and v = "Json (JObj [])" and sp = "Span 0" and tr = "Tracer 0"]
    by (simp add: a b)
qed

text \<open>
  C9. When the credential of the instance descriptor is the empty string, the request has
  no \<^verbatim>\<open>Authorization\<close> header: its headers are \<^verbatim>\<open>Accept\<close> and \<^verbatim>\<open>Content-Type\<close> alone. The
  test \<^verbatim>\<open>if (accessToken)\<close> is one of truthiness, and the empty string is falsy.
\<close>

theorem empty_token_no_authorization:
  assumes "accessToken inst = Some []"
  shows "headers (requestGraphQL_request q v inst sp tr)
           = [(''Accept'', ''application/json''), (''Content-Type'', ''application/json'')] \<and>
         map_of (headers (requestGraphQL_request q v inst sp tr)) ''Authorization'' = None"
  using assms by (simp add: requestGraphQL_request_def requestGraphQL_headers_def)

theorem empty_token_no_authorization_witness:
  "accessToken empty_token_instance = Some [] \<and>
   headers (requestGraphQL_request ''query { x }'' (Json (JObj [])) empty_token_instance
              (Span 0) (Tracer 0))
     = [(''Accept'', ''application/json''), (''Content-Type'', ''application/json'')]"
proof -
  have a: "accessToken empty_token_instance = Some []"
    by (simp add: empty_token_instance_def)
  show ?thesis
    using a empty_token_no_authorization [OF a, where q = "''query { x }''" and v = "Json (JObj [])"
        and sp = "Span 0" and tr = "Tracer 0"]
    by simp
qed

subsection \<open>Reads that are not guarded\<close>

text \<open>
  C8. \<^verbatim>\<open>search\<close>, \<^verbatim>\<open>resolveRev\<close> and \<^verbatim>\<open>queryExtensions\<close> read their field without any
  guard. When the response is successful, the envelope reports no errors, and \<^verbatim>\<open>data\<close> or
  an intermediate field of the path (\<^verbatim>\<open>data.search\<close>, \<^verbatim>\<open>data.search.results\<close>;
  \<^verbatim>\<open>data.repository\<close>, \<^verbatim>\<open>data.repository.commit\<close>; \<^verbatim>\<open>data.extensionRegistry\<close>,
  \<^verbatim>\<open>data.extensionRegistry.extensions\<close>) is \<^verbatim>\<open>null\<close> or absent, the operation rejects with
  the \<^verbatim>\<open>TypeError\<close> of reading the next property of \<^verbatim>\<open>null\<close> or \<^verbatim>\<open>undefined\<close>, not with an
  error of the module's own.
\<close>

theorem unguarded_reads:
  assumes "ok resp" and "json resp = Inr env" and "no_errors env"
  shows "(tracedFetch (search_request q inst sp tr) = Inr resp \<longrightarrow>
            (nullish_at (data env) [] \<longrightarrow>
               search tracedFetch q inst sp tr = Inl (TypeError_read ''search'')) \<and>
            (nullish_at (data env) [''search''] \<longrightarrow>
               search tracedFetch q inst sp tr = Inl (TypeError_read ''results'')) \<and>
            (nullish_at (data env) [''search'', ''results''] \<longrightarrow>
               search tracedFetch q inst sp tr = Inl (TypeError_read ''results''))) \<and>
         (tracedFetch (resolveRev_request repoName rev' inst sp tr) = Inr resp \<longrightarrow>
            (nullish_at (data env) [] \<longrightarrow>
               resolveRev tracedFetch repoName rev' inst sp tr = Inl (TypeError_read ''repository'')) \<and>
            (nullish_at (data env) [''repository''] \<longrightarrow>
               resolveRev tracedFetch repoName rev' inst sp tr = Inl (TypeError_read ''commit'')) \<and>
            (nullish_at (data env) [''repository'', ''commit''] \<longrightarrow>
               resolveRev tracedFetch repoName rev' inst sp tr = Inl (TypeError_read ''oid''))) \<and>
         (tracedFetch (queryExtensions_request inst sp tr) = Inr resp \<longrightarrow>
            (nullish_at (data env) [] \<longrightarrow>
               queryExtensions tracedFetch inst sp tr = Inl (TypeError_read ''extensionRegistry'')) \<and>
            (nullish_at (data env) [''extensionRegistry''] \<longrightarrow>
               queryExtensions tracedFetch inst sp tr = Inl (TypeError_read ''extensions'')) \<and>
            (nullish_at (data env) [''extensionRegistry'', ''extensions''] \<longrightarrow>
               queryExtensions tracedFetch inst sp tr = Inl (TypeError_read ''nodes'')))"
proof -
  have s: "tracedFetch (search_request q inst sp tr) = Inr resp \<Longrightarrow>
      search tracedFetch q inst sp tr =
        andThen (get (data env) ''search'') (\<lambda>a.
        andThen (get a ''results'') (\<lambda>b. get b ''results''))"
    using assms by (simp add: search_response throw_graphql_errors_none andThen_def)
  have r: "tracedFetch (resolveRev_request repoName rev' inst sp tr) = Inr resp \<Longrightarrow>
      resolveRev tracedFetch repoName rev' inst sp tr =
        andThen (get (data env) ''repository'') (\<lambda>a.
        andThen (get a ''commit'') (\<lambda>b. get b ''oid''))"
    using assms by (simp add: resolveRev_response throw_graphql_errors_none andThen_def)
  have e: "tracedFetch (queryExtensions_request inst sp tr) = Inr resp \<Longrightarrow>
      queryExtensions tracedFetch inst sp tr =
        andThen (get (data env) ''extensionRegistry'') (\<lambda>a.
        andThen (get a ''extensions'') (\<lambda>b. get b ''nodes''))"
    using assms by (simp add: queryExtensions_response throw_graphql_errors_none andThen_def)
  have n: "nullish_at d [] \<Longrightarrow> andThen (get d a) k = Inl (TypeError_read a)"
    for d a and k :: "js_value \<Rightarrow> js_error + js_value"
    by (simp add: nullish_at_def get_nullish andThen_def)
  have n1: "nullish_at d [a] \<Longrightarrow> andThen (get d a) (\<lambda>x. andThen (get x b) k) = Inl (TypeError_read b)"
    for d a b and k :: "js_value \<Rightarrow> js_error + js_value"
    by (auto simp: nullish_at_def andThen_def get_nullish split: sum.splits)
  have n2: "nullish_at d [a, b] \<Longrightarrow>
      andThen (get d a) (\<lambda>x. andThen (get x b) (\<lambda>y. get y c)) = Inl (TypeError_read c)"
    for d a b c
    by (auto simp: nullish_at_def andThen_def get_nullish split: sum.splits)
  show ?thesis
    by (intro conjI impI) (simp_all add: s r e n n1 n2)
qed

theorem unguarded_reads_witness:
  "search (\<lambda>_. Inr (response_200 (envelope_of search_null))) ''foo''
       example_instance (Span 0) (Tracer 0)
     = Inl (TypeError_read ''results'') \<and>
   resolveRev (\<lambda>_. Inr (response_200 (envelope_of commit_null))) ''github.com/a/b'' ''HEAD''
       example_instance (Span 0) (Tracer 0)
     = Inl (TypeError_read ''oid'') \<and>
   queryExtensions (\<lambda>_. Inr (response_200 (envelope_of empty_data)))
       example_instance (Span 0) (Tracer 0)
     = Inl (TypeError_read ''extensions'') \<and>
   search (\<lambda>_. Inr (response_200 data_absent)) ''foo'' example_instance (Span 0) (Tracer 0)
     = Inl (TypeError_read ''search'')"
proof -
  have a: "ok (response_200 e)" and b: "json (response_200 e) = Inr e" for e
    by (simp_all add: response_200_def)
  have c: "no_errors (envelope_of d)" for d
    by (simp add: envelope_of_def no_errors_def)
  have c': "no_errors data_absent"
    by (simp add: data_absent_def no_errors_def)
  have 1: "search (\<lambda>_. Inr (response_200 (envelope_of search_null))) ''foo''
       example_instance (Span 0) (Tracer 0) = Inl (TypeError_read ''results'')"
    using unguarded_reads [OF a [of "envelope_of search_null"] b [of "envelope_of search_null"]
        c [of search_null],
        where tracedFetch = "\<lambda>_. Inr (response_200 (envelope_of search_null))"
        and q = "''foo''" and inst = example_instance and sp = "Span 0" and tr = "Tracer 0"]
    by (simp add: nullish_at_def nullish_def envelope_of_def search_null_def andThen_def)
  have 2: "resolveRev (\<lambda>_. Inr (response_200 (envelope_of commit_null))) ''github.com/a/b'' ''HEAD''
       example_instance (Span 0) (Tracer 0) = Inl (TypeError_read ''oid'')"
    using unguarded_reads [OF a [of "envelope_of commit_null"] b [of "envelope_of commit_null"]
        c [of commit_null],
        where tracedFetch = "\<lambda>_. Inr (response_200 (envelope_of commit_null))"
        and repoName = "''github.com/a/b''" and rev' = "''HEAD''"
        and inst = example_instance and sp = "Span 0" and tr = "Tracer 0"]
    by (simp add: nullish_at_def nullish_def envelope_of_def commit_null_def andThen_def)
  have 3: "queryExtensions (\<lambda>_. Inr (response_200 (envelope_of empty_data)))
       example_instance (Span 0) (Tracer 0) = Inl (TypeError_read ''extensions'')"
    using unguarded_reads [OF a [of "envelope_of empty_data"] b [of "envelope_of empty_data"]
        c [of empty_data],
        where tracedFetch = "\<lambda>_. Inr (response_200 (envelope_of empty_data))"
        and inst = example_instance and sp = "Span 0" and tr = "Tracer 0"]
    by (simp add: nullish_at_def nullish_def envelope_of_def empty_data_def andThen_def)
  have 4: "search (\<lambda>_. Inr (response_200 data_absent)) ''foo'' example_instance (Span 0) (Tracer 0)
       = Inl (TypeError_read ''search'')"
    using unguarded_reads [OF a [of data_absent] b [of data_absent] c',
        where tracedFetch = "\<lambda>_. Inr (response_200 data_absent)"
        and q = "''foo''" and inst = example_instance and sp = "Span 0" and tr = "Tracer 0"]
    by (simp add: nullish_at_def nullish_def data_absent_def andThen_def)
  show ?thesis
    using 1 2 3 4 by simp
qed

text \<open>
  The error \<^verbatim>\<open>No repository found ...\<close> is not confined to a \<^verbatim>\<open>data\<close> object whose
  \<^verbatim>\<open>repository\<close> is \<^verbatim>\<open>null\<close> or absent: \<^verbatim>\<open>resolveRepository\<close> rejects with it also when
  \<^verbatim>\<open>repository\<close> is \<^verbatim>\<open>false\<close>, which is neither, and when \<^verbatim>\<open>data\<close> is a string, which is not
  an object.
\<close>

theorem not_found_counterexample:
  "data (envelope_of repository_false) = Json (JObj [(''repository'', JBool False)]) \<and>
   map_of [(''repository'', JBool False)] ''repository'' \<noteq> None \<and>
   map_of [(''repository'', JBool False)] ''repository'' \<noteq> Some JNull \<and>
   resolveRepository (\<lambda>_. Inr (response_200 (envelope_of repository_false))) ''https://x/y.git''
       example_instance (Span 0) (Tracer 0)
     = Inl (Error ''No repository found for clone URL https://x/y.git on instance https://sourcegraph.example.com/'') \<and>
   data (envelope_of data_string) = Json (JStr ''abc'') \<and>
   resolveRepository (\<lambda>_. Inr (response_200 (envelope_of data_string))) ''https://x/y.git''
       example_instance (Span 0) (Tracer 0)
     = Inl (Error ''No repository found for clone URL https://x/y.git on instance https://sourcegraph.example.com/'')"
  by (simp add: resolveRepository_response response_200_def envelope_of_def
      repository_false_def data_string_def throw_graphql_errors_def andThen_def
      example_instance_def example_url_def href_def)

text \<open>
  C10, amended. The guard of \<^verbatim>\<open>resolveRepository\<close> is on \<^verbatim>\<open>data.repository\<close>, not on
  \<^verbatim>\<open>data\<close>, and it is a test of truthiness. When the response is successful and the
  envelope reports no errors: if \<^verbatim>\<open>data\<close> is \<^verbatim>\<open>null\<close> or absent, \<^verbatim>\<open>resolveRepository\<close>
  rejects with the \<^verbatim>\<open>TypeError\<close> of reading \<^verbatim>\<open>repository\<close> of \<^verbatim>\<open>null\<close> or \<^verbatim>\<open>undefined\<close>, and
  the guard is not reached; the error \<^verbatim>\<open>No repository found ...\<close> is produced exactly when
  \<^verbatim>\<open>data\<close> is neither \<^verbatim>\<open>null\<close> nor absent and \<^verbatim>\<open>data.repository\<close> is falsy (\<^verbatim>\<open>null\<close>, absent,
  \<^verbatim>\<open>false\<close>, zero or the empty string), which is the case in particular when \<^verbatim>\<open>data\<close> is an
  object whose \<^verbatim>\<open>repository\<close> is \<^verbatim>\<open>null\<close> or absent.
\<close>

theorem resolveRepository_guard:
  assumes "ok resp" and "json resp = Inr env" and "no_errors env"
    and "tracedFetch (resolveRepository_request cloneUrl inst sp tr) = Inr resp"
  shows "(nullish (data env) \<longrightarrow>
            resolveRepository tracedFetch cloneUrl inst sp tr = Inl (TypeError_read ''repository'')) \<and>
         (resolveRepository tracedFetch cloneUrl inst sp tr
            = Inl (Error (''No repository found for clone URL '' @ cloneUrl @
                          '' on instance '' @ href (instanceUrl inst)))
          \<longleftrightarrow> \<not> nullish (data env) \<and> repository_falsy (data env)) \<and>
         (data env = Json (JObj fs) \<and>
          (map_of fs ''repository'' = None \<or> map_of fs ''repository'' = Some JNull) \<longrightarrow>
            resolveRepository tracedFetch cloneUrl inst sp tr
              = Inl (Error (''No repository found for clone URL '' @ cloneUrl @
                            '' on instance '' @ href (instanceUrl inst))))"
proof -
  let ?nf = "Inl (Error (''No repository found for clone URL '' @ cloneUrl @
                         '' on instance '' @ href (instanceUrl inst))) :: js_error + js_value"
  have r: "resolveRepository tracedFetch cloneUrl inst sp tr =
      andThen (get (data env) ''repository'') (\<lambda>a. if truthy a then get a ''name'' else ?nf)"
    using assms by (simp add: resolveRepository_response throw_graphql_errors_none andThen_def)
  have 1: "nullish (data env) \<longrightarrow>
      resolveRepository tracedFetch cloneUrl inst sp tr = Inl (TypeError_read ''repository'')"
    by (simp add: r get_nullish andThen_def)
  have 2: "resolveRepository tracedFetch cloneUrl inst sp tr = ?nf
      \<longleftrightarrow> \<not> nullish (data env) \<and> repository_falsy (data env)"
  proof (cases "get (data env) ''repository''")
    case (Inl e)
    then have "e = TypeError_read ''repository''"
      by (rule get_error)
    with Inl show ?thesis
      by (simp add: r andThen_def repository_falsy_def)
  next
    case (Inr a)
    then have n: "\<not> nullish (data env)"
      by (auto simp: nullish_def)
    have "get a ''name'' \<noteq> ?nf"
      using get_error [of a "''name''"] by auto
    with Inr n show ?thesis
      by (simp add: r andThen_def repository_falsy_def)
  qed
  have 3: "data env = Json (JObj fs) \<and>
      (map_of fs ''repository'' = None \<or> map_of fs ''repository'' = Some JNull) \<longrightarrow>
        resolveRepository tracedFetch cloneUrl inst sp tr = ?nf"
    by (auto simp: r andThen_def)
  from 1 2 3 show ?thesis
    by blast
qed

theorem resolveRepository_guard_witness:
  "nullish (data data_null) \<and>
   resolveRepository (\<lambda>_. Inr (response_200 data_null)) ''https://x/y.git''
       example_instance (Span 0) (Tracer 0)
     = Inl (TypeError_read ''repository'') \<and>
   nullish (data data_absent) \<and>
   resolveRepository (\<lambda>_. Inr (response_200 data_absent)) ''https://x/y.git''
       example_instance (Span 0) (Tracer 0)
     = Inl (TypeError_read ''repository'') \<and>
   resolveRepository (\<lambda>_. Inr (response_200 (envelope_of empty_data))) ''https://x/y.git''
       example_instance (Span 0) (Tracer 0)
     = Inl (Error ''No repository found for clone URL https://x/y.git on instance https://sourcegraph.example.com/'') \<and>
   \<not> nullish (data (envelope_of repository_false)) \<and>
   repository_falsy (data (envelope_of repository_false)) \<and>
   resolveRepository (\<lambda>_. Inr (response_200 (envelope_of repository_false))) ''https://x/y.git''
       example_instance (Span 0) (Tracer 0)
     = Inl (Error ''No repository found for clone URL https://x/y.git on instance https://sourcegraph.example.com/'')"
proof -
  have h: "href (instanceUrl example_instance) = ''https://sourcegraph.example.com/''"
    by (simp add: example_instance_def example_url_def href_def)
  have a: "ok (response_200 e)" and b: "json (response_200 e) = Inr e" for e
    by (simp_all add: response_200_def)
  have c: "no_errors data_null" "no_errors data_absent" "no_errors (envelope_of d)" for d
    by (simp_all add: data_null_def data_absent_def envelope_of_def no_errors_def)
  have n: "nullish (data data_null)" "nullish (data data_absent)"
    by (simp_all add: data_null_def data_absent_def nullish_def)
  have f: "\<not> nullish (data (envelope_of repository_false))"
    "repository_falsy (data (envelope_of repository_false))"
    by (simp_all add: envelope_of_def repository_false_def nullish_def repository_falsy_def)
  have 1: "resolveRepository (\<lambda>_. Inr (response_200 data_null)) ''https://x/y.git''
       example_instance (Span 0) (Tracer 0) = Inl (TypeError_read ''repository'')"
    using n(1) resolveRepository_guard [OF a [of data_null] b [of data_null] c(1),
        where tracedFetch = "\<lambda>_. Inr (response_200 data_null)"
        and cloneUrl = "''https://x/y.git''" and inst = example_instance
        and sp = "Span 0" and tr = "Tracer 0"]
    by simp
  have 2: "resolveRepository (\<lambda>_. Inr (response_200 data_absent)) ''https://x/y.git''
       example_instance (Span 0) (Tracer 0) = Inl (TypeError_read ''repository'')"
    using n(2) resolveRepository_guard [OF a [of data_absent] b [of data_absent] c(2),
        where tracedFetch = "\<lambda>_. Inr (response_200 data_absent)"
        and cloneUrl = "''https://x/y.git''" and inst = example_instance
        and sp = "Span 0" and tr = "Tracer 0"]
    by simp
  have 3: "resolveRepository (\<lambda>_. Inr (response_200 (envelope_of empty_data))) ''https://x/y.git''
       example_instance (Span 0) (Tracer 0)
     = Inl (Error ''No repository found for clone URL https://x/y.git on instance https://sourcegraph.example.com/'')"
    using resolveRepository_guard [OF a [of "envelope_of empty_data"]
        b [of "envelope_of empty_data"] c(3) [of empty_data],
        where tracedFetch = "\<lambda>_. Inr (response_200 (envelope_of empty_data))"
        and fs = "[]" and cloneUrl = "''https://x/y.git''" and inst = example_instance
        and sp = "Span 0" and tr = "Tracer 0"]
    by (simp add: envelope_of_def empty_data_def h)
  have 4: "resolveRepository (\<lambda>_. Inr (response_200 (envelope_of repository_false))) ''https://x/y.git''
       example_instance (Span 0) (Tracer 0)
     = Inl (Error ''No repository found for clone URL https://x/y.git on instance https://sourcegraph.example.com/'')"
    using f resolveRepository_guard [OF a [of "envelope_of repository_false"]
        b [of "envelope_of repository_false"] c(3) [of repository_false],
        where tracedFetch = "\<lambda>_. Inr (response_200 (envelope_of repository_false))"
        and cloneUrl = "''https://x/y.git''" and inst = example_instance
        and sp = "Span 0" and tr = "Tracer 0"]
    by (simp add: h)
  show ?thesis
    using n f 1 2 3 4 by simp
qed

end
